theory Spec2Isabelle
  imports Complex_Main "HOL-Library.Signed_Division"
begin

section \<open>The Remootio API client as a state machine\<close>

text \<open>
  The source is the compiled class \<open>RemootioDevice\<close> (\<open>src/lib/index.d.ts\<close>, the
  JavaScript after the declarations). Every method and every event handler of the class
  is a function from the state of the device to its next state. The state holds the
  private fields of the class, the timers armed with \<open>setInterval\<close>/\<open>setTimeout\<close>, and
  the trace of everything the code does to the outside: the notifications it emits, the
  calls on the websocket and the console output, in program order.

  What the file does not contain is taken as a parameter (\<open>externals\<close>):
  \<open>JSON.parse\<close>, \<open>JSON.stringify\<close>, the two functions of \<open>./apicrypto\<close>, and
  whether the constructor of the websocket library accepts an address or throws.
  Listeners are assumed registered and returning normally, so \<open>emit\<close> only appends
  to the trace. A method or handler that can end in an exception returns an
  \<open>outcome\<close>: the state it leaves behind, and the exception when it threw.
\<close>

subsection \<open>Values\<close>

text \<open>
  A parsed JSON value; an object is the list of its properties, and the numbers are the
  integers, which is all the ids of the protocol need.
\<close>

datatype json =
    JNull
  | JBool bool
  | JNum int
  | JStr string
  | JArr "json list"
  | JObj "(string \<times> json) list"

text \<open>
  The decrypted payload of an ENCRYPTED frame (\<open>ReceivedEncryptedFrameContent\<close> of
  \<open>./frames\<close>, whose shapes are those of section 6 of the specification). The handler
  tests \<open>'challenge' in decryptedPayload\<close> and \<open>'response' in decryptedPayload\<close>
  independently, so both properties are optional here.
\<close>

record challenge_content =
  sessionKey :: string
  initialActionId :: int

record response_content =
  resp_id :: "int option"
  resp_type :: string

record received_content =
  challenge :: "challenge_content option"
  response :: "response_content option"

datatype ready_state = CONNECTING | OPEN | CLOSING | CLOSED

text \<open>
  The websocket object: \<open>new WebSocket('ws://' + deviceIp + ':' + port + '/')\<close> is
  kept as the two parts of its address and its \<open>readyState\<close>.
\<close>

record websocket =
  host :: string
  wsport :: int
  readyState :: ready_state

datatype exception = SyntaxError | TypeError

datatype error_arg =
    NoPingResponse rat
  | AuthenticationOrEncryptionError
  | Exception exception

datatype event =
    Connecting
  | Connected
  | Authenticated
  | Disconnect
  | Error error_arg
  | Outgoingmessage json "json option"
  | Incomingmessage json "received_content option"

datatype effect =
    Emit event
  | WsNew string int
  | WsSend string
  | WsClose
  | WsTerminate
  | ConsoleWarn string
  | ConsoleError string

record remootio_device =
  apiSecretKey :: string
  apiAuthKey :: string
  deviceIp :: string
  websocketClient :: "websocket option"
  apiSessionKey :: "string option"
  lastActionId :: "int option"
  autoReconnect :: bool
  port :: int
  sendPingMessageEveryXMs :: int
  sendPingMessageIntervalHandle :: "nat option"
  pingReplyTimeoutXMs :: rat
  pingReplyTimeoutHandle :: "nat option"
  waitingForAuthenticationQueryActionResponse :: "bool option"
  intervals :: "nat list"
  timeouts :: "nat list"
  nextTimer :: nat
  trace :: "effect list"

record externals =
  JSON_parse :: "string \<Rightarrow> json option"
  JSON_stringify :: "json \<Rightarrow> string"
  remootioApiDecryptEncrypedFrame ::
    "json \<Rightarrow> string \<Rightarrow> string \<Rightarrow> string option \<Rightarrow> received_content option"
  remootioApiConstructEncrypedFrame ::
    "string \<Rightarrow> string \<Rightarrow> string \<Rightarrow> string \<Rightarrow> json"
  WebSocket_new :: "string \<Rightarrow> int \<Rightarrow> exception option"

text \<open>
  \<open>WebSocket_new X host port\<close> is \<open>new WebSocket('ws://' + host + ':' + port + '/')\<close>:
  \<open>None\<close> when the constructor returns the socket, \<open>Some e\<close> when it throws
  \<open>e\<close>, as it does on an address or a port that makes no URL.
\<close>

datatype outcome = Returned remootio_device | Threw exception remootio_device

fun state_of :: "outcome \<Rightarrow> remootio_device" where
  "state_of (Returned s) = s"
| "state_of (Threw e s) = s"

fun threw :: "outcome \<Rightarrow> bool" where
  "threw (Returned s) = False"
| "threw (Threw e s) = True"

subsection \<open>JavaScript tests on JSON values\<close>

fun truthy :: "json \<Rightarrow> bool" where
  "truthy JNull = False"
| "truthy (JBool b) = b"
| "truthy (JNum n) = (n \<noteq> 0)"
| "truthy (JStr s) = (s \<noteq> [])"
| "truthy (JArr xs) = True"
| "truthy (JObj kvs) = True"

text \<open>\<open>v.type\<close>: only an object has such a property; \<open>None\<close> is \<open>undefined\<close>.\<close>

fun prop_type :: "json \<Rightarrow> json option" where
  "prop_type (JObj kvs) = map_of kvs ''type''"
| "prop_type v = None"

text \<open>
  \<open>v == 'ENCRYPTED'\<close> with the loose equality of the source: a string is compared as
  it is, an array is first joined with commas (so a one-element array compares as its
  element does), and no number, boolean, null or object converts to this string.
\<close>

fun eq_ENCRYPTED :: "json \<Rightarrow> bool" where
  "eq_ENCRYPTED (JStr s) = (s = ''ENCRYPTED'')"
| "eq_ENCRYPTED (JArr [x]) = eq_ENCRYPTED x"
| "eq_ENCRYPTED v = False"

text \<open>
  Before it compares, the loose equality converts an object or an array to a primitive:
  it calls \<open>valueOf\<close>, which returns the object itself, and then \<open>toString\<close>. An
  object parsed from JSON that has a property \<open>toString\<close> of its own has no callable
  one (no JSON value is a function), so the conversion throws a TypeError. An array is
  converted by joining the conversions of its elements and throws where one of them
  does. \<open>eq_ENCRYPTED\<close> is the result of the comparison where the conversion returns.
\<close>

fun toPrimitive_throws :: "json \<Rightarrow> bool" where
  "toPrimitive_throws (JObj kvs) = (''toString'' \<in> fst ` set kvs)"
| "toPrimitive_throws (JArr xs) = (\<exists>x \<in> set xs. toPrimitive_throws x)"
| "toPrimitive_throws v = False"

text \<open>
  \<open>rcvMsgJson && rcvMsgJson.type == 'ENCRYPTED'\<close> is true, is false, or throws.
\<close>

datatype test = Holds | Fails | Throws exception

definition frame_test :: "json \<Rightarrow> test" where
  "frame_test rcvMsgJson =
     (if truthy rcvMsgJson
      then (case prop_type rcvMsgJson of
              None \<Rightarrow> Fails
            | Some t \<Rightarrow>
                if toPrimitive_throws t then Throws TypeError
                else if eq_ENCRYPTED t then Holds
                else Fails)
      else Fails)"

definition is_ENCRYPTED :: "json \<Rightarrow> bool" where
  "is_ENCRYPTED rcvMsgJson = (frame_test rcvMsgJson = Holds)"

subsection \<open>Primitive effects\<close>

definition emit :: "event \<Rightarrow> remootio_device \<Rightarrow> remootio_device" where
  "emit e s = s\<lparr>trace := trace s @ [Emit e]\<rparr>"

definition console_warn :: "string \<Rightarrow> remootio_device \<Rightarrow> remootio_device" where
  "console_warn msg s = s\<lparr>trace := trace s @ [ConsoleWarn msg]\<rparr>"

definition console_error :: "string \<Rightarrow> remootio_device \<Rightarrow> remootio_device" where
  "console_error msg s = s\<lparr>trace := trace s @ [ConsoleError msg]\<rparr>"

definition ws_send :: "string \<Rightarrow> remootio_device \<Rightarrow> remootio_device" where
  "ws_send frame s = s\<lparr>trace := trace s @ [WsSend frame]\<rparr>"

text \<open>
  \<open>close()\<close> and \<open>terminate()\<close> of the websocket library leave a closed socket as it
  is and move any other one to CLOSING; the close event follows later.
\<close>

definition closing :: "websocket \<Rightarrow> websocket" where
  "closing w = (if readyState w = CLOSED then w else w\<lparr>readyState := CLOSING\<rparr>)"

definition clearTimeout :: "nat \<Rightarrow> remootio_device \<Rightarrow> remootio_device" where
  "clearTimeout h s = s\<lparr>timeouts := removeAll h (timeouts s)\<rparr>"

definition clearInterval :: "nat \<Rightarrow> remootio_device \<Rightarrow> remootio_device" where
  "clearInterval h s = s\<lparr>intervals := removeAll h (intervals s)\<rparr>"

subsection \<open>Constructor\<close>

definition is_hex :: "char \<Rightarrow> bool" where
  "is_hex c = (c \<in> set ''0123456789ABCDEFabcdef'')"

text \<open>\<open>/[0-9A-Fa-f]{64}/g.test(s)\<close>: a run of 64 hexadecimal digits somewhere in s.\<close>

fun hex_run :: "nat \<Rightarrow> string \<Rightarrow> bool" where
  "hex_run n [] = (64 \<le> n)"
| "hex_run n (c # cs) =
     (if 64 \<le> n then True else if is_hex c then hex_run (Suc n) cs else hex_run 0 cs)"

definition hexstringRe_test :: "string \<Rightarrow> bool" where
  "hexstringRe_test s = hex_run 0 s"

definition RemootioDevice ::
  "string \<Rightarrow> string \<Rightarrow> string \<Rightarrow> int option \<Rightarrow> remootio_device" where
  "RemootioDevice DeviceIp ApiSecretKey ApiAuthKey sendPingMessageEveryXMs' =
     (let every = (case sendPingMessageEveryXMs' of
                     None \<Rightarrow> 60000
                   | Some n \<Rightarrow> if n \<noteq> 0 then n else 60000);
          s0 = \<lparr>apiSecretKey = ApiSecretKey,
                apiAuthKey = ApiAuthKey,
                deviceIp = DeviceIp,
                websocketClient = None,
                apiSessionKey = None,
                lastActionId = None,
                autoReconnect = False,
                port = 8080,
                sendPingMessageEveryXMs = every,
                sendPingMessageIntervalHandle = None,
                pingReplyTimeoutXMs = of_int every / 2,
                pingReplyTimeoutHandle = None,
                waitingForAuthenticationQueryActionResponse = Some False,
                intervals = [],
                timeouts = [],
                nextTimer = 0,
                trace = []\<rparr>;
          s1 = (if \<not> hexstringRe_test ApiSecretKey
                then console_error
                  ''ApiSecretKey must be a hexstring representing a 256bit long byteArray'' s0
                else s0)
      in if \<not> hexstringRe_test ApiAuthKey
         then console_error
           ''ApiAuthKey must be a hexstring representing a 256bit long byteArray'' s1
         else s1)"

subsection \<open>Readable properties\<close>

definition isConnected :: "remootio_device \<Rightarrow> bool" where
  "isConnected s =
     (case websocketClient s of
        None \<Rightarrow> False
      | Some w \<Rightarrow> if readyState w = OPEN then True else False)"

definition theLastActionId :: "remootio_device \<Rightarrow> int option" where
  "theLastActionId s = lastActionId s"

definition isAuthenticated :: "remootio_device \<Rightarrow> bool" where
  "isAuthenticated s =
     (case websocketClient s of
        None \<Rightarrow> False
      | Some w \<Rightarrow>
          if readyState w = OPEN
          then (case apiSessionKey s of Some k \<Rightarrow> True | None \<Rightarrow> False)
          else False)"

subsection \<open>Sending frames\<close>

definition sendFrame :: "externals \<Rightarrow> json \<Rightarrow> remootio_device \<Rightarrow> remootio_device" where
  "sendFrame X frameJson s =
     (if isConnected s
      then emit (Outgoingmessage frameJson None) (ws_send (JSON_stringify X frameJson) s)
      else console_warn ''The websocket client is not connected'' s)"

definition sendEncryptedFrame ::
  "externals \<Rightarrow> json \<Rightarrow> remootio_device \<Rightarrow> remootio_device" where
  "sendEncryptedFrame X unencryptedPayload s =
     (if isConnected s
      then (case apiSessionKey s of
              Some k \<Rightarrow>
                (let encryptedFrame =
                       remootioApiConstructEncrypedFrame X
                         (JSON_stringify X unencryptedPayload)
                         (apiSecretKey s) (apiAuthKey s) k
                 in emit (Outgoingmessage encryptedFrame (Some unencryptedPayload))
                      (ws_send (JSON_stringify X encryptedFrame) s))
            | None \<Rightarrow> console_warn ''Authenticate session first to send this message'' s)
      else console_warn ''The websocket client is not connected'' s)"

definition plain_frame :: "string \<Rightarrow> json" where
  "plain_frame t = JObj [(''type'', JStr t)]"

definition authenticate :: "externals \<Rightarrow> remootio_device \<Rightarrow> remootio_device" where
  "authenticate X s = sendFrame X (plain_frame ''AUTH'') s"

definition sendHello :: "externals \<Rightarrow> remootio_device \<Rightarrow> remootio_device" where
  "sendHello X s = sendFrame X (plain_frame ''HELLO'') s"

definition sendPing :: "externals \<Rightarrow> remootio_device \<Rightarrow> remootio_device" where
  "sendPing X s = sendFrame X (plain_frame ''PING'') s"

subsection \<open>Actions\<close>

text \<open>
  \<open>(this.lastActionId + 1) % 0x7fffffff\<close>; the remainder of JavaScript takes the sign
  of the dividend, which is \<open>smod\<close>.
\<close>

definition next_action_id :: "int \<Rightarrow> int" where
  "next_action_id c = (c + 1) smod 0x7fffffff"

definition action_payload :: "string \<Rightarrow> int \<Rightarrow> json" where
  "action_payload t i = JObj [(''action'', JObj [(''type'', JStr t), (''id'', JNum i)])]"

definition hold_payload :: "string \<Rightarrow> int \<Rightarrow> int \<Rightarrow> json" where
  "hold_payload t durationMins i =
     JObj [(''action'',
            JObj [(''type'', JStr t), (''duration'', JNum durationMins), (''id'', JNum i)])]"

text \<open>The ten action methods share one body; only the payload differs.\<close>

definition send_action ::
  "externals \<Rightarrow> (int \<Rightarrow> json) \<Rightarrow> remootio_device \<Rightarrow> remootio_device" where
  "send_action X payload_of s =
     (case lastActionId s of
        Some c \<Rightarrow> sendEncryptedFrame X (payload_of (next_action_id c)) s
      | None \<Rightarrow> console_warn ''Unexpected error - lastActionId is undefined'' s)"

definition sendQuery :: "externals \<Rightarrow> remootio_device \<Rightarrow> remootio_device" where
  "sendQuery X s = send_action X (action_payload ''QUERY'') s"

definition sendTrigger :: "externals \<Rightarrow> remootio_device \<Rightarrow> remootio_device" where
  "sendTrigger X s = send_action X (action_payload ''TRIGGER'') s"

definition sendTriggerSecondary :: "externals \<Rightarrow> remootio_device \<Rightarrow> remootio_device" where
  "sendTriggerSecondary X s = send_action X (action_payload ''TRIGGER_SECONDARY'') s"

definition sendOpen :: "externals \<Rightarrow> remootio_device \<Rightarrow> remootio_device" where
  "sendOpen X s = send_action X (action_payload ''OPEN'') s"

definition sendClose :: "externals \<Rightarrow> remootio_device \<Rightarrow> remootio_device" where
  "sendClose X s = send_action X (action_payload ''CLOSE'') s"

definition holdTriggerOutputActive ::
  "externals \<Rightarrow> int \<Rightarrow> remootio_device \<Rightarrow> remootio_device" where
  "holdTriggerOutputActive X durationMins s =
     send_action X (hold_payload ''TRIGGER'' durationMins) s"

definition holdTriggerSecondaryOutputActive ::
  "externals \<Rightarrow> int \<Rightarrow> remootio_device \<Rightarrow> remootio_device" where
  "holdTriggerSecondaryOutputActive X durationMins s =
     send_action X (hold_payload ''TRIGGER_SECONDARY'' durationMins) s"

definition holdOpenOutputActive ::
  "externals \<Rightarrow> int \<Rightarrow> remootio_device \<Rightarrow> remootio_device" where
  "holdOpenOutputActive X durationMins s =
     send_action X (hold_payload ''OPEN'' durationMins) s"

definition holdCloseOutputActive ::
  "externals \<Rightarrow> int \<Rightarrow> remootio_device \<Rightarrow> remootio_device" where
  "holdCloseOutputActive X durationMins s =
     send_action X (hold_payload ''CLOSE'' durationMins) s"

definition sendRestart :: "externals \<Rightarrow> remootio_device \<Rightarrow> remootio_device" where
  "sendRestart X s = send_action X (action_payload ''RESTART'') s"

subsection \<open>connect and the handlers it registers\<close>

text \<open>
  When the constructor of the websocket throws, the flag, the port and the cleared
  session data are already stored, \<open>websocketClient\<close> is still the previous socket,
  nothing is emitted and no handler is registered.
\<close>

definition connect :: "externals \<Rightarrow> bool \<Rightarrow> int \<Rightarrow> remootio_device \<Rightarrow> outcome" where
  "connect X autoReconnect' port' s =
     (let s1 = (if autoReconnect' then s\<lparr>autoReconnect := True\<rparr> else s);
          s2 = (if port' \<noteq> 0 then s1\<lparr>port := port'\<rparr> else s1);
          s3 = s2\<lparr>apiSessionKey := None,
                  lastActionId := None,
                  waitingForAuthenticationQueryActionResponse := None\<rparr>
      in case WebSocket_new X (deviceIp s3) (port s3) of
           Some e \<Rightarrow> Threw e s3
         | None \<Rightarrow>
             Returned
               (emit Connecting
                  (s3\<lparr>websocketClient :=
                        Some \<lparr>host = deviceIp s3, wsport = port s3,
                              readyState = CONNECTING\<rparr>,
                      trace := trace s3 @ [WsNew (deviceIp s3) (port s3)]\<rparr>)))"

text \<open>The callback of the watchdog armed after every PING.\<close>

definition on_pingReplyTimeout :: "remootio_device \<Rightarrow> remootio_device" where
  "on_pingReplyTimeout s =
     (let s1 = emit (Error (NoPingResponse (pingReplyTimeoutXMs s))) s
      in case websocketClient s1 of
           Some w \<Rightarrow>
             s1\<lparr>websocketClient := Some (closing w),
                trace := trace s1 @ [WsTerminate],
                pingReplyTimeoutHandle := None\<rparr>
         | None \<Rightarrow> s1)"

text \<open>The callback of the repeating timer.\<close>

definition on_interval :: "externals \<Rightarrow> remootio_device \<Rightarrow> remootio_device" where
  "on_interval X s =
     (if isConnected s
      then (let h = nextTimer s
            in sendPing X
                 (s\<lparr>timeouts := timeouts s @ [h],
                    nextTimer := Suc h,
                    pingReplyTimeoutHandle := Some h\<rparr>))
      else s)"

definition on_open :: "remootio_device \<Rightarrow> remootio_device" where
  "on_open s =
     (let s1 = emit Connected s;
          h = nextTimer s1
      in s1\<lparr>intervals := intervals s1 @ [h],
            nextTimer := Suc h,
            sendPingMessageIntervalHandle := Some h\<rparr>)"

text \<open>The condition under which a response id replaces the counter.\<close>

definition accepts :: "int \<Rightarrow> int \<Rightarrow> bool" where
  "accepts c r = (c < r \<or> (r = 0 \<and> c = 0x7fffffff))"

definition handle_challenge ::
  "externals \<Rightarrow> received_content \<Rightarrow> remootio_device \<Rightarrow> remootio_device" where
  "handle_challenge X decryptedPayload s =
     (case challenge decryptedPayload of
        Some ch \<Rightarrow>
          sendQuery X
            (s\<lparr>apiSessionKey := Some (sessionKey ch),
               lastActionId := Some (initialActionId ch),
               waitingForAuthenticationQueryActionResponse := Some True\<rparr>)
      | None \<Rightarrow> s)"

definition handle_response :: "received_content \<Rightarrow> remootio_device \<Rightarrow> remootio_device" where
  "handle_response decryptedPayload s =
     (case response decryptedPayload of
        None \<Rightarrow> s
      | Some r \<Rightarrow>
          (case resp_id r of
             None \<Rightarrow> s
           | Some rid \<Rightarrow>
               (let s1 = (case lastActionId s of
                            Some c \<Rightarrow> if accepts c rid then s\<lparr>lastActionId := Some rid\<rparr> else s
                          | None \<Rightarrow>
                              console_warn ''Unexpected error - lastActionId is undefined'' s)
                in if resp_type r = ''QUERY'' \<and>
                      waitingForAuthenticationQueryActionResponse s1 = Some True
                   then emit Authenticated
                          (s1\<lparr>waitingForAuthenticationQueryActionResponse := Some False\<rparr>)
                   else s1)))"

text \<open>
  The message handler. \<open>JSON.parse\<close> throwing is \<open>None\<close>; the \<open>catch\<close> of the
  handler is the branch of that case and the branch of the frame test throwing, which
  comes after the watchdog has been cleared.
\<close>

definition on_message :: "externals \<Rightarrow> string \<Rightarrow> remootio_device \<Rightarrow> remootio_device" where
  "on_message X data s =
     (case JSON_parse X data of
        None \<Rightarrow> emit (Error (Exception SyntaxError)) s
      | Some rcvMsgJson \<Rightarrow>
          (let s1 = (case pingReplyTimeoutHandle s of
                       Some h \<Rightarrow> (clearTimeout h s)\<lparr>pingReplyTimeoutHandle := None\<rparr>
                     | None \<Rightarrow> s)
           in case frame_test rcvMsgJson of
                Throws e \<Rightarrow> emit (Error (Exception e)) s1
              | Holds \<Rightarrow>
                  (let decryptedPayload =
                         remootioApiDecryptEncrypedFrame X rcvMsgJson
                           (apiSecretKey s1) (apiAuthKey s1) (apiSessionKey s1);
                       s2 = emit (Incomingmessage rcvMsgJson decryptedPayload) s1
                   in case decryptedPayload of
                        Some p \<Rightarrow> handle_response p (handle_challenge X p s2)
                      | None \<Rightarrow> emit (Error AuthenticationOrEncryptionError) s2)
              | Fails \<Rightarrow> emit (Incomingmessage rcvMsgJson None) s1))"

text \<open>
  The close handler. An exception of \<open>connect\<close> leaves the handler at once, before
  \<open>disconnect\<close> is emitted.
\<close>

definition on_close :: "externals \<Rightarrow> remootio_device \<Rightarrow> outcome" where
  "on_close X s =
     (let s1 = (case sendPingMessageIntervalHandle s of
                  Some h \<Rightarrow> (clearInterval h s)\<lparr>sendPingMessageIntervalHandle := None\<rparr>
                | None \<Rightarrow> s)
      in if autoReconnect s1
         then (case connect X (autoReconnect s1) (port s1) s1 of
                 Returned s2 \<Rightarrow> Returned (emit Disconnect s2)
               | Threw e s2 \<Rightarrow> Threw e s2)
         else Returned (emit Disconnect s1))"

definition disconnect :: "remootio_device \<Rightarrow> remootio_device" where
  "disconnect s =
     (case websocketClient s of
        Some w \<Rightarrow>
          s\<lparr>autoReconnect := False,
            websocketClient := Some (closing w),
            trace := trace s @ [WsClose]\<rparr>
      | None \<Rightarrow> s)"

subsection \<open>The environment: the websocket library and the timers\<close>

text \<open>
  The library sets \<open>readyState\<close> before it calls a handler, and the runtime calls a
  timer's callback only while the timer is armed; a timeout is disarmed by firing.
\<close>

definition set_readyState :: "ready_state \<Rightarrow> remootio_device \<Rightarrow> remootio_device" where
  "set_readyState r s =
     (case websocketClient s of
        Some w \<Rightarrow> s\<lparr>websocketClient := Some (w\<lparr>readyState := r\<rparr>)\<rparr>
      | None \<Rightarrow> s)"

definition open_event :: "remootio_device \<Rightarrow> remootio_device" where
  "open_event s = on_open (set_readyState OPEN s)"

definition close_event :: "externals \<Rightarrow> remootio_device \<Rightarrow> outcome" where
  "close_event X s = on_close X (set_readyState CLOSED s)"

definition timeout_fires :: "nat \<Rightarrow> remootio_device \<Rightarrow> remootio_device" where
  "timeout_fires h s =
     (if h \<in> set (timeouts s)
      then on_pingReplyTimeout (s\<lparr>timeouts := removeAll h (timeouts s)\<rparr>)
      else s)"

definition interval_fires :: "externals \<Rightarrow> nat \<Rightarrow> remootio_device \<Rightarrow> remootio_device" where
  "interval_fires X h s = (if h \<in> set (intervals s) then on_interval X s else s)"

text \<open>What a step appended to the trace.\<close>

definition emitted :: "remootio_device \<Rightarrow> remootio_device \<Rightarrow> effect list" where
  "emitted s s' = drop (length (trace s)) (trace s')"

subsection \<open>A small environment for concrete runs\<close>

text \<open>
  A toy wire format, enough to run the handlers on concrete input: \<open>E:\<close> followed by a
  body is an ENCRYPTED frame whose data is the body, \<open>P:\<close> followed by a type is a
  plaintext frame of that type, \<open>O:\<close> followed by a name is a frame whose type is an
  object with one property of that name, and anything else is not JSON. Decryption looks
  the body up in a table of three payloads and fails on any other body. The websocket
  constructor accepts the ports of a URL and throws on any other.
\<close>

definition demo_parse :: "string \<Rightarrow> json option" where
  "demo_parse s =
     (case s of
        CHR ''E'' # CHR '':'' # b \<Rightarrow>
          Some (JObj [(''type'', JStr ''ENCRYPTED''), (''data'', JStr b)])
      | CHR ''P'' # CHR '':'' # t \<Rightarrow> Some (JObj [(''type'', JStr t)])
      | CHR ''O'' # CHR '':'' # k \<Rightarrow> Some (JObj [(''type'', JObj [(k, JNum 1)])])
      | _ \<Rightarrow> None)"

definition demo_stringify :: "json \<Rightarrow> string" where
  "demo_stringify j =
     (case j of
        JObj [(k, JStr t)] \<Rightarrow> ''P:'' @ t
      | JObj [(k, JStr t), (d, JStr b)] \<Rightarrow> ''E:'' @ b
      | _ \<Rightarrow> ''action'')"

definition demo_content :: "string \<Rightarrow> received_content option" where
  "demo_content b =
     (if b = ''challenge5''
      then Some \<lparr>challenge = Some \<lparr>sessionKey = ''session'', initialActionId = 5\<rparr>,
                 response = None\<rparr>
      else if b = ''query6''
      then Some \<lparr>challenge = None,
                 response = Some \<lparr>resp_id = Some 6, resp_type = ''QUERY''\<rparr>\<rparr>
      else if b = ''query3''
      then Some \<lparr>challenge = None,
                 response = Some \<lparr>resp_id = Some 3, resp_type = ''QUERY''\<rparr>\<rparr>
      else None)"

definition demo_decrypt ::
  "json \<Rightarrow> string \<Rightarrow> string \<Rightarrow> string option \<Rightarrow> received_content option" where
  "demo_decrypt frame secret auth session =
     (case frame of
        JObj [(k, t), (d, JStr b)] \<Rightarrow> demo_content b
      | _ \<Rightarrow> None)"

definition demo_construct :: "string \<Rightarrow> string \<Rightarrow> string \<Rightarrow> string \<Rightarrow> json" where
  "demo_construct payload secret auth session =
     JObj [(''type'', JStr ''ENCRYPTED''), (''data'', JStr payload)]"

definition demo_WebSocket_new :: "string \<Rightarrow> int \<Rightarrow> exception option" where
  "demo_WebSocket_new h p = (if 0 \<le> p \<and> p \<le> 65535 then None else Some SyntaxError)"

definition demoX :: externals where
  "demoX = \<lparr>JSON_parse = demo_parse,
            JSON_stringify = demo_stringify,
            remootioApiDecryptEncrypedFrame = demo_decrypt,
            remootioApiConstructEncrypedFrame = demo_construct,
            WebSocket_new = demo_WebSocket_new\<rparr>"

text \<open>A device built with the keys of the constructor's documentation.\<close>

definition demo_new :: remootio_device where
  "demo_new =
     RemootioDevice ''192.168.1.155''
       ''12b3f03211c384736b8a1906635f4abc90074e680138a689caf03485a971efb3''
       ''74ca13b56b3c898670a67e8f36f8b8a61340738c82617ba1398ae7ca62f1670a''
       None"

text \<open>Connected with \<open>autoReconnect\<close> on or off, then the transport opens.\<close>

definition demo_open :: "bool \<Rightarrow> remootio_device" where
  "demo_open auto = open_event (state_of (connect demoX auto 8080 demo_new))"

text \<open>The challenge with \<open>initialActionId = 5\<close> has been received.\<close>

definition demo_challenged :: "bool \<Rightarrow> remootio_device" where
  "demo_challenged auto = on_message demoX ''E:challenge5'' (demo_open auto)"

text \<open>The repeating timer has ticked once: a PING is out and its watchdog is armed.\<close>

definition demo_pinged :: "bool \<Rightarrow> remootio_device" where
  "demo_pinged auto = interval_fires demoX 0 (demo_open auto)"

text \<open>The ten action methods, the hold variants with their duration.\<close>

definition action_methods ::
  "externals \<Rightarrow> int \<Rightarrow> (remootio_device \<Rightarrow> remootio_device) list" where
  "action_methods X durationMins =
     [sendQuery X, sendTrigger X, sendTriggerSecondary X, sendOpen X, sendClose X,
      holdTriggerOutputActive X durationMins, holdTriggerSecondaryOutputActive X durationMins,
      holdOpenOutputActive X durationMins, holdCloseOutputActive X durationMins,
      sendRestart X]"

text \<open>
  The caller then asks for port 70000, for which the constructor throws: the port is
  stored, the open socket and its timers stay, and the repeating timer ticks.
\<close>

definition demo_badport :: remootio_device where
  "demo_badport =
     interval_fires demoX 0 (state_of (connect demoX True 70000 (demo_open True)))"

subsection \<open>Reachable states\<close>

text \<open>
  The states a device can be in: built by the constructor and changed by the public
  methods, by the handlers of the websocket (whose \<open>readyState\<close> the library may
  move at any time) and by the callbacks of the timers that are armed.
\<close>

inductive reachable :: "externals \<Rightarrow> remootio_device \<Rightarrow> bool" for X :: externals where
  constructed:
    "reachable X (RemootioDevice DeviceIp ApiSecretKey ApiAuthKey sendPingMessageEveryXMs')"
| connected:
    "reachable X s \<Longrightarrow> reachable X (state_of (connect X autoReconnect' port' s))"
| disconnected:
    "reachable X s \<Longrightarrow> reachable X (disconnect s)"
| frame_sent:
    "reachable X s \<Longrightarrow> reachable X (sendFrame X frameJson s)"
| encrypted_frame_sent:
    "reachable X s \<Longrightarrow> reachable X (sendEncryptedFrame X unencryptedPayload s)"
| action_sent:
    "reachable X s \<Longrightarrow> method \<in> set (action_methods X durationMins) \<Longrightarrow>
     reachable X (method s)"
| readyState_moved:
    "reachable X s \<Longrightarrow> reachable X (set_readyState r s)"
| opened:
    "reachable X s \<Longrightarrow> reachable X (on_open s)"
| message:
    "reachable X s \<Longrightarrow> reachable X (on_message X data s)"
| closed:
    "reachable X s \<Longrightarrow> reachable X (state_of (on_close X s))"
| interval_fired:
    "reachable X s \<Longrightarrow> reachable X (interval_fires X h s)"
| timeout_fired:
    "reachable X s \<Longrightarrow> reachable X (timeout_fires h s)"

section \<open>Auxiliary facts\<close>

lemmas send_defs =
  sendFrame_def sendEncryptedFrame_def send_action_def sendQuery_def
  emit_def console_warn_def ws_send_def

lemmas demo_externals_defs =
  demoX_def demo_parse_def demo_stringify_def demo_content_def demo_decrypt_def
  demo_construct_def demo_WebSocket_new_def

lemma next_action_id_nonneg: "0 \<le> c \<Longrightarrow> next_action_id c = (c + 1) mod 0x7fffffff"
  by (simp add: next_action_id_def smod_int_alt_def)

lemma next_action_id_iterate: "(next_action_id ^^ n) 0 = int n mod 0x7fffffff"
proof (induction n)
  case 0
  show ?case by simp
next
  case (Suc n)
  have "(next_action_id ^^ Suc n) 0 = next_action_id (int n mod 0x7fffffff)"
    by (simp add: Suc.IH)
  also have "\<dots> = (int n mod 0x7fffffff + 1) mod 0x7fffffff"
    by (rule next_action_id_nonneg) simp
  also have "\<dots> = int (Suc n) mod 0x7fffffff"
    by (simp add: mod_add_right_eq add.commute)
  finally show ?case .
qed

text \<open>The concrete states, evaluated step by step.\<close>

lemma demo_new_eq:
  "demo_new =
     \<lparr>apiSecretKey = ''12b3f03211c384736b8a1906635f4abc90074e680138a689caf03485a971efb3'',
      apiAuthKey = ''74ca13b56b3c898670a67e8f36f8b8a61340738c82617ba1398ae7ca62f1670a'',
      deviceIp = ''192.168.1.155'',
      websocketClient = None,
      apiSessionKey = None,
      lastActionId = None,
      autoReconnect = False,
      port = 8080,
      sendPingMessageEveryXMs = 60000,
      sendPingMessageIntervalHandle = None,
      pingReplyTimeoutXMs = 30000,
      pingReplyTimeoutHandle = None,
      waitingForAuthenticationQueryActionResponse = Some False,
      intervals = [],
      timeouts = [],
      nextTimer = 0,
      trace = []\<rparr>"
  by (simp add: demo_new_def RemootioDevice_def hexstringRe_test_def is_hex_def Let_def)

lemma demo_open_eq:
  "demo_open a =
     \<lparr>apiSecretKey = ''12b3f03211c384736b8a1906635f4abc90074e680138a689caf03485a971efb3'',
      apiAuthKey = ''74ca13b56b3c898670a67e8f36f8b8a61340738c82617ba1398ae7ca62f1670a'',
      deviceIp = ''192.168.1.155'',
      websocketClient = Some \<lparr>host = ''192.168.1.155'', wsport = 8080, readyState = OPEN\<rparr>,
      apiSessionKey = None,
      lastActionId = None,
      autoReconnect = a,
      port = 8080,
      sendPingMessageEveryXMs = 60000,
      sendPingMessageIntervalHandle = Some 0,
      pingReplyTimeoutXMs = 30000,
      pingReplyTimeoutHandle = None,
      waitingForAuthenticationQueryActionResponse = None,
      intervals = [0],
      timeouts = [],
      nextTimer = 1,
      trace = [WsNew ''192.168.1.155'' 8080, Emit Connecting, Emit Connected]\<rparr>"
  by (simp add: demo_open_def demo_new_eq open_event_def on_open_def set_readyState_def
        connect_def emit_def demoX_def demo_WebSocket_new_def Let_def)

lemma demo_challenged_eq:
  "demo_challenged a =
     \<lparr>apiSecretKey = ''12b3f03211c384736b8a1906635f4abc90074e680138a689caf03485a971efb3'',
      apiAuthKey = ''74ca13b56b3c898670a67e8f36f8b8a61340738c82617ba1398ae7ca62f1670a'',
      deviceIp = ''192.168.1.155'',
      websocketClient = Some \<lparr>host = ''192.168.1.155'', wsport = 8080, readyState = OPEN\<rparr>,
      apiSessionKey = Some ''session'',
      lastActionId = Some 5,
      autoReconnect = a,
      port = 8080,
      sendPingMessageEveryXMs = 60000,
      sendPingMessageIntervalHandle = Some 0,
      pingReplyTimeoutXMs = 30000,
      pingReplyTimeoutHandle = None,
      waitingForAuthenticationQueryActionResponse = Some True,
      intervals = [0],
      timeouts = [],
      nextTimer = 1,
      trace = [WsNew ''192.168.1.155'' 8080, Emit Connecting, Emit Connected,
         Emit (Incomingmessage
                (JObj [(''type'', JStr ''ENCRYPTED''), (''data'', JStr ''challenge5'')])
                (Some \<lparr>challenge = Some \<lparr>sessionKey = ''session'', initialActionId = 5\<rparr>,
                       response = None\<rparr>)),
         WsSend ''E:action'',
         Emit (Outgoingmessage
                (JObj [(''type'', JStr ''ENCRYPTED''), (''data'', JStr ''action'')])
                (Some (JObj [(''action'', JObj [(''type'', JStr ''QUERY''), (''id'', JNum 6)])])))]\<rparr>"
  by (simp add: demo_challenged_def demo_open_eq on_message_def handle_challenge_def
        handle_response_def frame_test_def sendQuery_def send_action_def
        sendEncryptedFrame_def isConnected_def action_payload_def next_action_id_nonneg
        emit_def ws_send_def demo_externals_defs Let_def)

lemma demo_pinged_eq:
  "demo_pinged a =
     \<lparr>apiSecretKey = ''12b3f03211c384736b8a1906635f4abc90074e680138a689caf03485a971efb3'',
      apiAuthKey = ''74ca13b56b3c898670a67e8f36f8b8a61340738c82617ba1398ae7ca62f1670a'',
      deviceIp = ''192.168.1.155'',
      websocketClient = Some \<lparr>host = ''192.168.1.155'', wsport = 8080, readyState = OPEN\<rparr>,
      apiSessionKey = None,
      lastActionId = None,
      autoReconnect = a,
      port = 8080,
      sendPingMessageEveryXMs = 60000,
      sendPingMessageIntervalHandle = Some 0,
      pingReplyTimeoutXMs = 30000,
      pingReplyTimeoutHandle = Some 1,
      waitingForAuthenticationQueryActionResponse = None,
      intervals = [0],
      timeouts = [1],
      nextTimer = 2,
      trace = [WsNew ''192.168.1.155'' 8080, Emit Connecting, Emit Connected,
         WsSend ''P:PING'', Emit (Outgoingmessage (JObj [(''type'', JStr ''PING'')]) None)]\<rparr>"
  by (simp add: demo_pinged_def demo_open_eq interval_fires_def on_interval_def sendPing_def
        sendFrame_def plain_frame_def isConnected_def emit_def ws_send_def
        demo_externals_defs Let_def)

text \<open>The guards in front of every write to the websocket.\<close>

lemma sendFrame_not_connected:
  "\<not> isConnected s \<Longrightarrow>
   sendFrame X frameJson s = console_warn ''The websocket client is not connected'' s"
  by (simp add: sendFrame_def)

lemma sendEncryptedFrame_guarded:
  assumes "\<not> isConnected s \<or> apiSessionKey s = None"
  shows "\<exists>msg. sendEncryptedFrame X unencryptedPayload s = console_warn msg s"
proof (cases "isConnected s")
  case True
  with assms have "apiSessionKey s = None" by simp
  with True show ?thesis by (simp add: sendEncryptedFrame_def) (rule exI, rule refl)
next
  case False
  then show ?thesis by (simp add: sendEncryptedFrame_def) (rule exI, rule refl)
qed

lemma send_action_guarded:
  assumes "\<not> isConnected s \<or> apiSessionKey s = None \<or> lastActionId s = None"
  shows "\<exists>msg. send_action X payload_of s = console_warn msg s"
proof (cases "lastActionId s")
  case None
  then show ?thesis by (simp add: send_action_def) (rule exI, rule refl)
next
  case (Some c)
  with assms have "\<not> isConnected s \<or> apiSessionKey s = None" by simp
  from sendEncryptedFrame_guarded [OF this] Some show ?thesis
    by (simp add: send_action_def)
qed

lemma demo_badport_eq: "demo_badport = (demo_pinged True)\<lparr>port := 70000\<rparr>"
  by (simp add: demo_badport_def demo_pinged_eq demo_open_eq connect_def interval_fires_def
        on_interval_def sendPing_def sendFrame_def plain_frame_def isConnected_def emit_def
        ws_send_def demo_externals_defs Let_def)

text \<open>The session key and the action counter are stored and cleared together.\<close>

lemma send_action_session:
  "apiSessionKey (send_action X payload_of s) = apiSessionKey s \<and>
   lastActionId (send_action X payload_of s) = lastActionId s"
  by (simp add: send_defs Let_def split: option.splits)

lemma action_methods_session:
  assumes "method \<in> set (action_methods X durationMins)"
  shows "apiSessionKey (method s) = apiSessionKey s \<and> lastActionId (method s) = lastActionId s"
proof -
  from assms obtain payload_of where "method = send_action X payload_of"
    by (auto simp: action_methods_def sendQuery_def sendTrigger_def sendTriggerSecondary_def
          sendOpen_def sendClose_def sendRestart_def holdTriggerOutputActive_def
          holdTriggerSecondaryOutputActive_def holdOpenOutputActive_def
          holdCloseOutputActive_def fun_eq_iff)
  then show ?thesis by (simp add: send_action_session)
qed

lemma reachable_key_iff_counter:
  "reachable X s \<Longrightarrow> (apiSessionKey s = None) = (lastActionId s = None)"
proof (induction rule: reachable.induct)
  case (constructed DeviceIp ApiSecretKey ApiAuthKey every)
  show ?case by (simp add: RemootioDevice_def console_error_def Let_def)
next
  case (connected s autoReconnect' port')
  show ?case by (simp add: connect_def emit_def Let_def split: option.splits)
next
  case (disconnected s)
  then show ?case by (simp add: disconnect_def split: option.splits)
next
  case (frame_sent s frameJson)
  then show ?case by (simp add: send_defs)
next
  case (encrypted_frame_sent s unencryptedPayload)
  then show ?case by (auto simp: send_defs Let_def split: option.splits)
next
  case (action_sent s action durationMins)
  then show ?case by (simp add: action_methods_session)
next
  case (readyState_moved s r)
  then show ?case by (simp add: set_readyState_def split: option.splits)
next
  case (opened s)
  then show ?case by (simp add: on_open_def emit_def Let_def)
next
  case (message s data)
  then show ?case
    by (auto simp: on_message_def handle_response_def handle_challenge_def clearTimeout_def
          send_defs Let_def split: option.splits test.splits)
next
  case (closed s)
  then show ?case
    by (auto simp: on_close_def connect_def clearInterval_def emit_def Let_def
          split: option.splits)
next
  case (interval_fired s h)
  then show ?case
    by (simp add: interval_fires_def on_interval_def sendPing_def send_defs Let_def)
next
  case (timeout_fired s h)
  then show ?case
    by (simp add: timeout_fires_def on_pingReplyTimeout_def emit_def Let_def
          split: option.splits)
qed

section \<open>The action counter\<close>

text \<open>
  Claim C1. A decrypted payload carries a response with a defined id \<open>rid\<close>, and the
  counter holds \<open>c\<close> when the response is processed: \<open>c\<close> is the stored
  \<open>lastActionId\<close>, or the \<open>initialActionId\<close> just installed when the same payload
  also carries a challenge. After the message handler has run, \<open>lastActionId\<close> is
  \<open>rid\<close> if \<open>c < rid\<close> or \<open>rid = 0\<close> and \<open>c = 0x7FFFFFFF\<close>, and it is still
  \<open>c\<close> in every other case: a stale or duplicate response never moves it back.
\<close>

theorem lastActionId_accept_rule:
  assumes "JSON_parse X data = Some j"
    and "is_ENCRYPTED j"
    and "remootioApiDecryptEncrypedFrame X j (apiSecretKey s) (apiAuthKey s) (apiSessionKey s)
           = Some p"
    and "response p = Some r"
    and "resp_id r = Some rid"
    and "(case challenge p of
            None \<Rightarrow> lastActionId s
          | Some ch \<Rightarrow> Some (initialActionId ch)) = Some c"
  shows "lastActionId (on_message X data s) =
           Some (if c < rid \<or> (rid = 0 \<and> c = 0x7FFFFFFF) then rid else c)"
  using assms
  by (auto simp: on_message_def is_ENCRYPTED_def handle_response_def handle_challenge_def
        accepts_def clearTimeout_def send_defs Let_def split: option.splits)

text \<open>
  The two scenarios of the specification, after the challenge with
  \<open>initialActionId = 5\<close>: the response echoing 6 moves the counter to 6, and a response
  echoing 3 leaves it at 5.
\<close>

theorem lastActionId_accept_rule_witness:
  "lastActionId (demo_challenged True) = Some 5 \<and>
   lastActionId (on_message demoX ''E:query6'' (demo_challenged True)) = Some 6 \<and>
   lastActionId (on_message demoX ''E:query3'' (demo_challenged True)) = Some 5"
proof -
  let ?s = "demo_challenged True"
  let ?j6 = "JObj [(''type'', JStr ''ENCRYPTED''), (''data'', JStr ''query6'')]"
  let ?j3 = "JObj [(''type'', JStr ''ENCRYPTED''), (''data'', JStr ''query3'')]"
  let ?r6 = "\<lparr>resp_id = Some 6, resp_type = ''QUERY''\<rparr>"
  let ?r3 = "\<lparr>resp_id = Some 3, resp_type = ''QUERY''\<rparr>"
  let ?p6 = "\<lparr>challenge = None, response = Some ?r6\<rparr>"
  let ?p3 = "\<lparr>challenge = None, response = Some ?r3\<rparr>"
  have parse6: "JSON_parse demoX ''E:query6'' = Some ?j6"
    and parse3: "JSON_parse demoX ''E:query3'' = Some ?j3"
    by (simp_all add: demoX_def demo_parse_def)
  have enc6: "is_ENCRYPTED ?j6" and enc3: "is_ENCRYPTED ?j3"
    by (simp_all add: is_ENCRYPTED_def frame_test_def)
  have dec6: "remootioApiDecryptEncrypedFrame demoX ?j6 (apiSecretKey ?s) (apiAuthKey ?s)
                (apiSessionKey ?s) = Some ?p6"
    and dec3: "remootioApiDecryptEncrypedFrame demoX ?j3 (apiSecretKey ?s) (apiAuthKey ?s)
                (apiSessionKey ?s) = Some ?p3"
    by (simp_all add: demoX_def demo_decrypt_def demo_content_def)
  have counter: "lastActionId ?s = Some 5"
    by (simp add: demo_challenged_eq)
  have c6: "(case challenge ?p6 of None \<Rightarrow> lastActionId ?s
             | Some ch \<Rightarrow> Some (initialActionId ch)) = Some 5"
    and c3: "(case challenge ?p3 of None \<Rightarrow> lastActionId ?s
             | Some ch \<Rightarrow> Some (initialActionId ch)) = Some 5"
    by (simp_all add: counter)
  have "lastActionId (on_message demoX ''E:query6'' ?s) = Some 6"
    using lastActionId_accept_rule [OF parse6 enc6 dec6 _ _ c6, of ?r6 6] by simp
  moreover have "lastActionId (on_message demoX ''E:query3'' ?s) = Some 5"
    using lastActionId_accept_rule [OF parse3 enc3 dec3 _ _ c3, of ?r3 3] by simp
  ultimately show ?thesis
    using counter by simp
qed

text \<open>
  Counterexample to claim C5 as stated: from 0, the successor applied
  \<open>0x7FFFFFFF + 1\<close> times does not return to 0.
\<close>

theorem next_wraparound_counterexample:
  "(next_action_id ^^ (0x7FFFFFFF + 1)) 0 \<noteq> 0"
  by (simp add: next_action_id_iterate)

text \<open>
  Claim C5, amended. The successor \<open>(counter + 1) % 0x7fffffff\<close> never yields
  \<open>0x7FFFFFFF\<close>, so its cycle has \<open>0x7FFFFFFF\<close> elements: applied \<open>0x7FFFFFFF\<close>
  times from 0 it returns to 0, and one application more gives 1.
\<close>

theorem next_action_id_period:
  "(next_action_id ^^ 0x7FFFFFFF) 0 = 0 \<and> (next_action_id ^^ (0x7FFFFFFF + 1)) 0 = 1"
  by (simp add: next_action_id_iterate)

section \<open>Sending without a connection or a session\<close>

text \<open>
  Claim C6. \<open>sendFrame\<close> while the websocket is not open, \<open>sendEncryptedFrame\<close>
  while it is not open or the session key or \<open>lastActionId\<close> is absent, and each of
  the ten action methods under the same conditions, return the state they were given
  with one console warning appended to the trace: nothing is written to the websocket,
  nothing is emitted, and the call returns. \<open>sendEncryptedFrame\<close> itself tests the
  websocket and the session key only; in every state the device can reach an absent
  \<open>lastActionId\<close> means an absent session key, which is what stops it then.
\<close>

theorem guarded_send_only_warns:
  "(\<not> isConnected s \<longrightarrow>
      (\<exists>msg. sendFrame X frameJson s = s\<lparr>trace := trace s @ [ConsoleWarn msg]\<rparr>)) \<and>
   (\<not> isConnected s \<or> apiSessionKey s = None \<or> (reachable X s \<and> lastActionId s = None) \<longrightarrow>
      (\<exists>msg. sendEncryptedFrame X unencryptedPayload s =
               s\<lparr>trace := trace s @ [ConsoleWarn msg]\<rparr>)) \<and>
   (\<not> isConnected s \<or> apiSessionKey s = None \<or> lastActionId s = None \<longrightarrow>
      (\<forall>method \<in> set (action_methods X durationMins).
         \<exists>msg. method s = s\<lparr>trace := trace s @ [ConsoleWarn msg]\<rparr>))"
proof (intro conjI impI)
  assume "\<not> isConnected s"
  from sendFrame_not_connected [OF this]
  show "\<exists>msg. sendFrame X frameJson s = s\<lparr>trace := trace s @ [ConsoleWarn msg]\<rparr>"
    unfolding console_warn_def by (rule exI)
next
  assume "\<not> isConnected s \<or> apiSessionKey s = None \<or>
          (reachable X s \<and> lastActionId s = None)"
  then have "\<not> isConnected s \<or> apiSessionKey s = None"
    using reachable_key_iff_counter [of X s] by auto
  from sendEncryptedFrame_guarded [OF this]
  show "\<exists>msg. sendEncryptedFrame X unencryptedPayload s =
               s\<lparr>trace := trace s @ [ConsoleWarn msg]\<rparr>"
    unfolding console_warn_def .
next
  assume "\<not> isConnected s \<or> apiSessionKey s = None \<or> lastActionId s = None"
  then have "\<exists>msg. send_action X payload_of s = s\<lparr>trace := trace s @ [ConsoleWarn msg]\<rparr>"
    for payload_of
    using send_action_guarded [of s X payload_of] unfolding console_warn_def by simp
  then show "\<forall>method \<in> set (action_methods X durationMins).
               \<exists>msg. method s = s\<lparr>trace := trace s @ [ConsoleWarn msg]\<rparr>"
    by (simp add: action_methods_def sendQuery_def sendTrigger_def sendTriggerSecondary_def
          sendOpen_def sendClose_def sendRestart_def holdTriggerOutputActive_def
          holdTriggerSecondaryOutputActive_def holdOpenOutputActive_def
          holdCloseOutputActive_def)
qed

text \<open>
  Before \<open>connect\<close> there is no websocket. After the transport has opened the device
  is in a reachable state with an open websocket and no \<open>lastActionId\<close>, and neither
  \<open>sendEncryptedFrame\<close> nor an action method writes a frame.
\<close>

theorem guarded_send_only_warns_witness:
  "\<not> isConnected demo_new \<and>
   sendFrame demoX (plain_frame ''HELLO'') demo_new =
     demo_new\<lparr>trace := trace demo_new @ [ConsoleWarn ''The websocket client is not connected'']\<rparr> \<and>
   isConnected (demo_open True) \<and> reachable demoX (demo_open True) \<and>
   lastActionId (demo_open True) = None \<and>
   sendEncryptedFrame demoX (action_payload ''QUERY'' 1) (demo_open True) =
     (demo_open True)\<lparr>trace := trace (demo_open True) @
        [ConsoleWarn ''Authenticate session first to send this message'']\<rparr> \<and>
   sendTrigger demoX (demo_open True) =
     (demo_open True)\<lparr>trace := trace (demo_open True) @
        [ConsoleWarn ''Unexpected error - lastActionId is undefined'']\<rparr>"
proof -
  have "reachable demoX demo_new"
    unfolding demo_new_def by (rule reachable.constructed)
  then have "reachable demoX (state_of (connect demoX True 8080 demo_new))"
    by (rule reachable.connected)
  then have "reachable demoX (set_readyState OPEN (state_of (connect demoX True 8080 demo_new)))"
    by (rule reachable.readyState_moved)
  then have "reachable demoX (on_open (set_readyState OPEN
               (state_of (connect demoX True 8080 demo_new))))"
    by (rule reachable.opened)
  then have reach: "reachable demoX (demo_open True)"
    by (simp add: demo_open_def open_event_def)
  have no_id: "lastActionId (demo_open True) = None"
    by (simp add: demo_open_eq)
  from guarded_send_only_warns [of "demo_open True" demoX _ "action_payload ''QUERY'' 1" 0]
    reach no_id
  have "\<exists>msg. sendEncryptedFrame demoX (action_payload ''QUERY'' 1) (demo_open True) =
          (demo_open True)\<lparr>trace := trace (demo_open True) @ [ConsoleWarn msg]\<rparr>"
    by blast
  with guarded_send_only_warns [of demo_new demoX "plain_frame ''HELLO''"] reach
  show ?thesis
    by (simp add: demo_new_eq demo_open_eq isConnected_def sendTrigger_def send_defs)
qed

section \<open>isAuthenticated\<close>

text \<open>
  Claim C10. \<open>isAuthenticated\<close> is true exactly when the websocket is open and a
  session key is stored. So once the handler has processed a challenge on an open
  websocket the property is true, although the confirmation QUERY has only been sent:
  the flag is still set and no \<open>authenticated\<close> notification has been emitted.
\<close>

theorem isAuthenticated_after_challenge:
  "(isAuthenticated s \<longleftrightarrow>
      (\<exists>w. websocketClient s = Some w \<and> readyState w = OPEN) \<and> apiSessionKey s \<noteq> None) \<and>
   (JSON_parse X data = Some j \<and> is_ENCRYPTED j \<and>
    remootioApiDecryptEncrypedFrame X j (apiSecretKey s) (apiAuthKey s) (apiSessionKey s)
      = Some p \<and>
    challenge p = Some ch \<and> response p = None \<and>
    websocketClient s = Some w \<and> readyState w = OPEN \<longrightarrow>
      isAuthenticated (on_message X data s) \<and>
      apiSessionKey (on_message X data s) = Some (sessionKey ch) \<and>
      waitingForAuthenticationQueryActionResponse (on_message X data s) = Some True \<and>
      Emit Authenticated \<notin> set (emitted s (on_message X data s)))"
  by (auto simp: isAuthenticated_def emitted_def on_message_def is_ENCRYPTED_def
        handle_response_def handle_challenge_def clearTimeout_def isConnected_def send_defs
        Let_def split: option.splits)

theorem isAuthenticated_after_challenge_witness:
  "\<not> isAuthenticated (demo_open True) \<and>
   isAuthenticated (demo_challenged True) \<and>
   waitingForAuthenticationQueryActionResponse (demo_challenged True) = Some True \<and>
   Emit Authenticated \<notin> set (emitted (demo_open True) (demo_challenged True))"
proof -
  let ?s = "demo_open True"
  let ?j = "JObj [(''type'', JStr ''ENCRYPTED''), (''data'', JStr ''challenge5'')]"
  let ?ch = "\<lparr>sessionKey = ''session'', initialActionId = 5\<rparr>"
  let ?p = "\<lparr>challenge = Some ?ch, response = None\<rparr>"
  let ?w = "\<lparr>host = ''192.168.1.155'', wsport = 8080, readyState = OPEN\<rparr>"
  note inst = isAuthenticated_after_challenge [of ?s demoX "''E:challenge5''" ?j ?p ?ch ?w]
  have hyps: "JSON_parse demoX ''E:challenge5'' = Some ?j \<and> is_ENCRYPTED ?j \<and>
      remootioApiDecryptEncrypedFrame demoX ?j (apiSecretKey ?s) (apiAuthKey ?s)
        (apiSessionKey ?s) = Some ?p \<and>
      challenge ?p = Some ?ch \<and> response ?p = None \<and>
      websocketClient ?s = Some ?w \<and> readyState ?w = OPEN"
    by (simp add: demo_externals_defs is_ENCRYPTED_def frame_test_def demo_open_eq)
  have no_key: "apiSessionKey ?s = None"
    by (simp add: demo_open_eq)
  from inst hyps have after:
    "isAuthenticated (on_message demoX ''E:challenge5'' ?s) \<and>
     waitingForAuthenticationQueryActionResponse (on_message demoX ''E:challenge5'' ?s)
       = Some True \<and>
     Emit Authenticated \<notin> set (emitted ?s (on_message demoX ''E:challenge5'' ?s))"
    by blast
  from inst no_key have "\<not> isAuthenticated ?s"
    by simp
  with after show ?thesis
    by (simp add: demo_challenged_def)
qed

section \<open>The authenticated notification\<close>

text \<open>
  Counterexample to claim C2 as stated. The challenge has set the counter to 5 and the
  flag; a QUERY response echoing id 3 fails the acceptance rule, and the handler emits
  \<open>authenticated\<close> all the same.
\<close>

theorem authenticated_ignores_id_counterexample:
  "\<not> accepts 5 3 \<and>
   lastActionId (demo_challenged True) = Some 5 \<and>
   emitted (demo_challenged True) (on_message demoX ''E:query3'' (demo_challenged True)) =
     [Emit (Incomingmessage
              (JObj [(''type'', JStr ''ENCRYPTED''), (''data'', JStr ''query3'')])
              (Some \<lparr>challenge = None,
                     response = Some \<lparr>resp_id = Some 3, resp_type = ''QUERY''\<rparr>\<rparr>)),
      Emit Authenticated]"
  by (simp add: demo_challenged_eq emitted_def on_message_def handle_challenge_def
        handle_response_def accepts_def frame_test_def emit_def demo_externals_defs Let_def)

text \<open>
  Claim C2, amended. The handler emits \<open>authenticated\<close> exactly when the decrypted
  payload carries a response with a defined id and the type QUERY while the flag
  \<open>waitingForAuthenticationQueryActionResponse\<close> is set, by an earlier challenge or by
  a challenge in the same payload. Whether the id passes the acceptance rule plays no
  part. Emitting the notification clears the flag.
\<close>

theorem authenticated_emitted_iff:
  "(Emit Authenticated \<in> set (emitted s (on_message X data s)) \<longleftrightarrow>
      (\<exists>j p r rid.
         JSON_parse X data = Some j \<and> is_ENCRYPTED j \<and>
         remootioApiDecryptEncrypedFrame X j (apiSecretKey s) (apiAuthKey s) (apiSessionKey s)
           = Some p \<and>
         response p = Some r \<and> resp_id r = Some rid \<and> resp_type r = ''QUERY'' \<and>
         (challenge p \<noteq> None \<or>
          waitingForAuthenticationQueryActionResponse s = Some True))) \<and>
   (Emit Authenticated \<in> set (emitted s (on_message X data s)) \<longrightarrow>
      waitingForAuthenticationQueryActionResponse (on_message X data s) = Some False)"
  by (auto simp: emitted_def on_message_def is_ENCRYPTED_def handle_response_def
        handle_challenge_def accepts_def clearTimeout_def send_defs Let_def
        split: option.splits test.splits)

text \<open>
  After the challenge the response echoing 6 completes the handshake; a plaintext frame
  does not.
\<close>

theorem authenticated_emitted_iff_witness:
  "waitingForAuthenticationQueryActionResponse (demo_challenged True) = Some True \<and>
   Emit Authenticated \<in>
     set (emitted (demo_challenged True) (on_message demoX ''E:query6'' (demo_challenged True))) \<and>
   waitingForAuthenticationQueryActionResponse
     (on_message demoX ''E:query6'' (demo_challenged True)) = Some False \<and>
   Emit Authenticated \<notin>
     set (emitted (demo_challenged True) (on_message demoX ''P:PONG'' (demo_challenged True)))"
proof -
  let ?s = "demo_challenged True"
  let ?j = "JObj [(''type'', JStr ''ENCRYPTED''), (''data'', JStr ''query6'')]"
  let ?r = "\<lparr>resp_id = Some 6, resp_type = ''QUERY''\<rparr>"
  let ?p = "\<lparr>challenge = None, response = Some ?r\<rparr>"
  have flag: "waitingForAuthenticationQueryActionResponse ?s = Some True"
    by (simp add: demo_challenged_eq)
  have "JSON_parse demoX ''E:query6'' = Some ?j \<and> is_ENCRYPTED ?j \<and>
        remootioApiDecryptEncrypedFrame demoX ?j (apiSecretKey ?s) (apiAuthKey ?s)
          (apiSessionKey ?s) = Some ?p \<and>
        response ?p = Some ?r \<and> resp_id ?r = Some 6 \<and> resp_type ?r = ''QUERY'' \<and>
        (challenge ?p \<noteq> None \<or> waitingForAuthenticationQueryActionResponse ?s = Some True)"
    by (simp add: demo_externals_defs is_ENCRYPTED_def frame_test_def flag)
  then have "\<exists>j p r rid.
        JSON_parse demoX ''E:query6'' = Some j \<and> is_ENCRYPTED j \<and>
        remootioApiDecryptEncrypedFrame demoX j (apiSecretKey ?s) (apiAuthKey ?s)
          (apiSessionKey ?s) = Some p \<and>
        response p = Some r \<and> resp_id r = Some rid \<and> resp_type r = ''QUERY'' \<and>
        (challenge p \<noteq> None \<or> waitingForAuthenticationQueryActionResponse ?s = Some True)"
    by blast
  with authenticated_emitted_iff [of ?s demoX "''E:query6''"]
  have yes: "Emit Authenticated \<in> set (emitted ?s (on_message demoX ''E:query6'' ?s)) \<and>
             waitingForAuthenticationQueryActionResponse (on_message demoX ''E:query6'' ?s)
               = Some False"
    by blast
  have "\<not> is_ENCRYPTED (JObj [(''type'', JStr ''PONG'')])"
    by (simp add: is_ENCRYPTED_def frame_test_def)
  moreover have "JSON_parse demoX ''P:PONG'' = Some (JObj [(''type'', JStr ''PONG'')])"
    by (simp add: demoX_def demo_parse_def)
  ultimately have no: "Emit Authenticated \<notin> set (emitted ?s (on_message demoX ''P:PONG'' ?s))"
    using authenticated_emitted_iff [of ?s demoX "''P:PONG''"] by auto
  from flag yes no show ?thesis by simp
qed

section \<open>Session data across a close\<close>

text \<open>
  Counterexample to claim C3 as stated. Connected without \<open>autoReconnect\<close> and
  challenged, the device holds a session key, the counter 5 and the flag; the close
  event leaves all three as they are.
\<close>

theorem close_keeps_session_counterexample:
  "\<not> autoReconnect (demo_challenged False) \<and>
   apiSessionKey (state_of (close_event demoX (demo_challenged False))) = Some ''session'' \<and>
   lastActionId (state_of (close_event demoX (demo_challenged False))) = Some 5 \<and>
   waitingForAuthenticationQueryActionResponse
     (state_of (close_event demoX (demo_challenged False))) = Some True"
  by (simp add: demo_challenged_eq close_event_def set_readyState_def on_close_def
        clearInterval_def emit_def Let_def)

text \<open>
  Claim C3, amended. The session key, the action counter and the flag are cleared by
  every \<open>connect\<close>, also by one whose websocket constructor throws, so none of them
  survives into a new connection. The close handler clears them only through the
  \<open>connect\<close> it calls when \<open>autoReconnect\<close> is set; with \<open>autoReconnect\<close> off it
  leaves all three unchanged.
\<close>

theorem session_cleared_by_connect:
  "(autoReconnect s \<longrightarrow>
      apiSessionKey (state_of (on_close X s)) = None \<and>
      lastActionId (state_of (on_close X s)) = None \<and>
      waitingForAuthenticationQueryActionResponse (state_of (on_close X s)) = None) \<and>
   (\<not> autoReconnect s \<longrightarrow>
      apiSessionKey (state_of (on_close X s)) = apiSessionKey s \<and>
      lastActionId (state_of (on_close X s)) = lastActionId s \<and>
      waitingForAuthenticationQueryActionResponse (state_of (on_close X s)) =
        waitingForAuthenticationQueryActionResponse s) \<and>
   apiSessionKey (state_of (connect X autoReconnect' port' s)) = None \<and>
   lastActionId (state_of (connect X autoReconnect' port' s)) = None \<and>
   waitingForAuthenticationQueryActionResponse (state_of (connect X autoReconnect' port' s))
     = None"
  by (auto simp: on_close_def connect_def clearInterval_def emit_def Let_def
        split: option.splits)

theorem session_cleared_by_connect_witness:
  "autoReconnect (demo_challenged True) \<and>
   apiSessionKey (demo_challenged True) = Some ''session'' \<and>
   apiSessionKey (state_of (on_close demoX (demo_challenged True))) = None \<and>
   lastActionId (state_of (on_close demoX (demo_challenged True))) = None \<and>
   waitingForAuthenticationQueryActionResponse
     (state_of (on_close demoX (demo_challenged True))) = None \<and>
   \<not> autoReconnect (demo_challenged False) \<and>
   apiSessionKey (state_of (on_close demoX (demo_challenged False))) = Some ''session''"
proof -
  have auto_on: "autoReconnect (demo_challenged True)"
    and auto_off: "\<not> autoReconnect (demo_challenged False)"
    and key: "apiSessionKey (demo_challenged a) = Some ''session''" for a
    by (simp_all add: demo_challenged_eq)
  from session_cleared_by_connect [of "demo_challenged True" demoX]
    session_cleared_by_connect [of "demo_challenged False" demoX] auto_on auto_off key
  show ?thesis by simp
qed

section \<open>Malformed messages\<close>

text \<open>
  Counterexample to claim C7 as stated. The message parses as JSON, its type \<open>FOO\<close>
  matches no frame of the protocol, and the handler emits no \<open>error\<close>: it forwards the
  value as an \<open>incomingmessage\<close>.
\<close>

theorem unknown_frame_no_error_counterexample:
  "JSON_parse demoX ''P:FOO'' = Some (JObj [(''type'', JStr ''FOO'')]) \<and>
   emitted (demo_open True) (on_message demoX ''P:FOO'' (demo_open True)) =
     [Emit (Incomingmessage (JObj [(''type'', JStr ''FOO'')]) None)]"
  by (simp add: demo_open_eq emitted_def on_message_def frame_test_def emit_def
        demo_externals_defs Let_def)

text \<open>
  Claim C7, amended. A message that is not parseable as JSON yields an \<open>error\<close>
  notification and nothing else: the state is otherwise unchanged. The handler checks no
  schema; it only evaluates \<open>rcvMsgJson && rcvMsgJson.type == 'ENCRYPTED'\<close>. Where
  evaluating that test throws (the type is an object with a \<open>toString\<close> property of its
  own, or an array holding one), the handler emits \<open>error\<close> and forwards nothing.
  Where the test is false, whatever the value is and whether or not it is a frame of
  the protocol, the value is forwarded as an \<open>incomingmessage\<close> with no payload and no
  \<open>error\<close>. Where the test is true and decryption fails, the frame is forwarded and
  followed by an \<open>error\<close>. In all these cases the session key, the action counter, the
  flag and the websocket stay as they were, and the connection is not closed.
\<close>

theorem malformed_message_handling:
  "(JSON_parse X data = None \<longrightarrow>
      on_message X data s = s\<lparr>trace := trace s @ [Emit (Error (Exception SyntaxError))]\<rparr>) \<and>
   (JSON_parse X data = Some j \<and> frame_test j = Throws e \<longrightarrow>
      emitted s (on_message X data s) = [Emit (Error (Exception e))]) \<and>
   (JSON_parse X data = Some j \<and> frame_test j = Fails \<longrightarrow>
      emitted s (on_message X data s) = [Emit (Incomingmessage j None)]) \<and>
   (JSON_parse X data = Some j \<and> frame_test j = Holds \<and>
    remootioApiDecryptEncrypedFrame X j (apiSecretKey s) (apiAuthKey s) (apiSessionKey s)
      = None \<longrightarrow>
      emitted s (on_message X data s) =
        [Emit (Incomingmessage j None), Emit (Error AuthenticationOrEncryptionError)]) \<and>
   (JSON_parse X data = None \<or>
    (JSON_parse X data = Some j \<and> frame_test j \<noteq> Holds) \<or>
    (JSON_parse X data = Some j \<and>
     remootioApiDecryptEncrypedFrame X j (apiSecretKey s) (apiAuthKey s) (apiSessionKey s)
       = None) \<longrightarrow>
      apiSessionKey (on_message X data s) = apiSessionKey s \<and>
      lastActionId (on_message X data s) = lastActionId s \<and>
      waitingForAuthenticationQueryActionResponse (on_message X data s) =
        waitingForAuthenticationQueryActionResponse s \<and>
      websocketClient (on_message X data s) = websocketClient s)"
  by (auto simp: emitted_def on_message_def clearTimeout_def emit_def Let_def
        split: option.splits test.splits)

text \<open>
  On the challenged device: text that is no JSON, and a frame whose type is the object
  \<open>{"toString": 1}\<close>, for which the test throws.
\<close>

theorem malformed_message_handling_witness:
  "JSON_parse demoX ''no json'' = None \<and>
   on_message demoX ''no json'' (demo_challenged True) =
     (demo_challenged True)\<lparr>trace := trace (demo_challenged True) @
        [Emit (Error (Exception SyntaxError))]\<rparr> \<and>
   JSON_parse demoX ''O:toString'' =
     Some (JObj [(''type'', JObj [(''toString'', JNum 1)])]) \<and>
   frame_test (JObj [(''type'', JObj [(''toString'', JNum 1)])]) = Throws TypeError \<and>
   emitted (demo_challenged True) (on_message demoX ''O:toString'' (demo_challenged True)) =
     [Emit (Error (Exception TypeError))] \<and>
   apiSessionKey (on_message demoX ''O:toString'' (demo_challenged True)) = Some ''session'' \<and>
   websocketClient (on_message demoX ''O:toString'' (demo_challenged True)) =
     Some \<lparr>host = ''192.168.1.155'', wsport = 8080, readyState = OPEN\<rparr>"
proof -
  let ?s = "demo_challenged True"
  let ?j = "JObj [(''type'', JObj [(''toString'', JNum 1)])]"
  have none: "JSON_parse demoX ''no json'' = None"
    and some: "JSON_parse demoX ''O:toString'' = Some ?j"
    by (simp_all add: demoX_def demo_parse_def)
  have throws: "frame_test ?j = Throws TypeError"
    by (simp add: frame_test_def)
  from malformed_message_handling [of demoX "''no json''" ?s] none
  have first: "on_message demoX ''no json'' ?s =
          ?s\<lparr>trace := trace ?s @ [Emit (Error (Exception SyntaxError))]\<rparr>"
    by blast
  from malformed_message_handling [of demoX "''O:toString''" ?s ?j TypeError] some throws
  have second: "emitted ?s (on_message demoX ''O:toString'' ?s) =
          [Emit (Error (Exception TypeError))] \<and>
        apiSessionKey (on_message demoX ''O:toString'' ?s) = apiSessionKey ?s \<and>
        websocketClient (on_message demoX ''O:toString'' ?s) = websocketClient ?s"
    by simp
  from none some throws first second show ?thesis
    by (simp add: demo_challenged_eq)
qed

section \<open>The keepalive timers\<close>

text \<open>
  Counterexample to claim C9 as stated. The device is connected with \<open>autoReconnect\<close>,
  the caller has asked for port 70000, which the websocket constructor refuses, and the
  watchdog of the old connection fires. It emits \<open>error\<close> and terminates the socket,
  but the \<open>connect\<close> of the close handler throws: nothing is emitted after the close,
  no \<open>connecting\<close> and no \<open>disconnect\<close>.
\<close>

theorem reconnect_throws_counterexample:
  "1 \<in> set (timeouts demo_badport) \<and> autoReconnect demo_badport \<and>
   emitted demo_badport (timeout_fires 1 demo_badport) =
     [Emit (Error (NoPingResponse 30000)), WsTerminate] \<and>
   threw (close_event demoX (timeout_fires 1 demo_badport)) \<and>
   emitted (timeout_fires 1 demo_badport)
     (state_of (close_event demoX (timeout_fires 1 demo_badport))) = []"
  by (simp add: demo_badport_eq demo_pinged_eq emitted_def timeout_fires_def
        on_pingReplyTimeout_def close_event_def set_readyState_def on_close_def connect_def
        clearInterval_def closing_def emit_def demoX_def demo_WebSocket_new_def Let_def)

text \<open>
  Claim C9, amended. When the watchdog fires while it is still armed (no frame has
  cleared it), the callback emits \<open>error\<close> and terminates the websocket, which is then
  no longer open; this does not depend on \<open>autoReconnect\<close>. With \<open>autoReconnect\<close>
  set, the close handler that follows calls \<open>connect\<close> with the port of the device.
  Provided the websocket constructor accepts the address and that port, a new websocket
  to the same port is created and \<open>connecting\<close> is emitted, before \<open>disconnect\<close>;
  where the constructor throws, the handler ends in that exception and emits nothing.
\<close>

theorem watchdog_expiry_reconnects:
  "(h \<in> set (timeouts s) \<and> websocketClient s = Some w \<longrightarrow>
      emitted s (timeout_fires h s) =
        [Emit (Error (NoPingResponse (pingReplyTimeoutXMs s))), WsTerminate] \<and>
      websocketClient (timeout_fires h s) = Some (closing w) \<and>
      readyState (closing w) \<noteq> OPEN) \<and>
   (h \<in> set (timeouts s) \<and> websocketClient s = Some w \<and> autoReconnect s \<and>
    WebSocket_new X (deviceIp s) (port s) = None \<longrightarrow>
      \<not> threw (close_event X (timeout_fires h s)) \<and>
      emitted (timeout_fires h s) (state_of (close_event X (timeout_fires h s))) =
        [WsNew (deviceIp s) (port s), Emit Connecting, Emit Disconnect] \<and>
      port (state_of (close_event X (timeout_fires h s))) = port s \<and>
      websocketClient (state_of (close_event X (timeout_fires h s))) =
        Some \<lparr>host = deviceIp s, wsport = port s, readyState = CONNECTING\<rparr>) \<and>
   (h \<in> set (timeouts s) \<and> websocketClient s = Some w \<and> autoReconnect s \<and>
    WebSocket_new X (deviceIp s) (port s) = Some e \<longrightarrow>
      close_event X (timeout_fires h s) =
        Threw e (state_of (close_event X (timeout_fires h s))) \<and>
      emitted (timeout_fires h s) (state_of (close_event X (timeout_fires h s))) = [])"
  by (auto simp: emitted_def timeout_fires_def on_pingReplyTimeout_def close_event_def
        set_readyState_def on_close_def connect_def clearInterval_def closing_def emit_def
        Let_def split: option.splits)

theorem watchdog_expiry_reconnects_witness:
  "1 \<in> set (timeouts (demo_pinged False)) \<and> \<not> autoReconnect (demo_pinged False) \<and>
   emitted (demo_pinged False) (timeout_fires 1 (demo_pinged False)) =
     [Emit (Error (NoPingResponse 30000)), WsTerminate] \<and>
   1 \<in> set (timeouts (demo_pinged True)) \<and> autoReconnect (demo_pinged True) \<and>
   WebSocket_new demoX ''192.168.1.155'' 8080 = None \<and>
   emitted (demo_pinged True) (timeout_fires 1 (demo_pinged True)) =
     [Emit (Error (NoPingResponse 30000)), WsTerminate] \<and>
   emitted (timeout_fires 1 (demo_pinged True))
     (state_of (close_event demoX (timeout_fires 1 (demo_pinged True)))) =
     [WsNew ''192.168.1.155'' 8080, Emit Connecting, Emit Disconnect]"
proof -
  let ?w = "\<lparr>host = ''192.168.1.155'', wsport = 8080, readyState = OPEN\<rparr>"
  have armed: "1 \<in> set (timeouts (demo_pinged a))"
    and sock: "websocketClient (demo_pinged a) = Some ?w"
    and flag: "autoReconnect (demo_pinged a) = a"
    and vals: "pingReplyTimeoutXMs (demo_pinged a) = 30000"
      "deviceIp (demo_pinged a) = ''192.168.1.155''" "port (demo_pinged a) = 8080" for a
    by (simp_all add: demo_pinged_eq)
  have accepted: "WebSocket_new demoX ''192.168.1.155'' 8080 = None"
    by (simp add: demoX_def demo_WebSocket_new_def)
  from watchdog_expiry_reconnects [of 1 "demo_pinged False" ?w demoX]
    watchdog_expiry_reconnects [of 1 "demo_pinged True" ?w demoX]
    armed sock flag vals accepted
  show ?thesis by simp
qed

text \<open>
  Claim C4 fails on the code. After one tick of the repeating timer the watchdog with
  handle 1 is armed. The close event, after \<open>disconnect\<close> or without it, clears the
  repeating timer and leaves the watchdog armed and its handle stored. With
  \<open>autoReconnect\<close> the watchdog then fires on the next connection: it emits \<open>error\<close>
  and terminates the websocket that \<open>connect\<close> has just created.
\<close>

theorem close_leaves_watchdog_armed:
  "timeouts (demo_pinged True) = [1] \<and>
   intervals (demo_pinged True) = [0] \<and>
   intervals (state_of (close_event demoX (disconnect (demo_pinged True)))) = [] \<and>
   timeouts (state_of (close_event demoX (disconnect (demo_pinged True)))) = [1] \<and>
   intervals (state_of (close_event demoX (demo_pinged True))) = [] \<and>
   timeouts (state_of (close_event demoX (demo_pinged True))) = [1] \<and>
   pingReplyTimeoutHandle (state_of (close_event demoX (demo_pinged True))) = Some 1 \<and>
   websocketClient (state_of (close_event demoX (demo_pinged True))) =
     Some \<lparr>host = ''192.168.1.155'', wsport = 8080, readyState = CONNECTING\<rparr> \<and>
   emitted (state_of (close_event demoX (demo_pinged True)))
     (timeout_fires 1 (state_of (close_event demoX (demo_pinged True)))) =
     [Emit (Error (NoPingResponse 30000)), WsTerminate]"
  by (simp add: demo_pinged_eq emitted_def timeout_fires_def on_pingReplyTimeout_def
        close_event_def set_readyState_def on_close_def connect_def disconnect_def
        clearInterval_def closing_def emit_def demoX_def demo_WebSocket_new_def Let_def)

end
